theory Spec2Isabelle
  imports Main
begin

section \<open>String primitives of the host language\<close>

text \<open>
  The component is written in TypeScript. Its strings are modelled as \<^typ>\<open>string\<close>
  (a list of characters), and the three string methods it calls are written out:
  \<open>startsWith\<close>, \<open>includes\<close> and \<open>substring\<close>. None of them can throw on a string
  receiver, so each is a plain total function.
\<close>

definition startsWith :: "string \<Rightarrow> string \<Rightarrow> bool" where
  "startsWith s p = (take (length p) s = p)"

text \<open>\<open>s.includes(p)\<close>: is \<open>p\<close> found at some position of \<open>s\<close>, scanned left to right.\<close>

fun str_includes :: "string \<Rightarrow> string \<Rightarrow> bool" where
  "str_includes [] p = (p = [])"
| "str_includes (c # cs) p = (startsWith (c # cs) p \<or> str_includes cs p)"

text \<open>
  \<open>s.substring(start, end)\<close>: both indices are clamped into \<open>0 .. s.length\<close>, and they
  are swapped when the first is the larger one. Indices are integers, since the caller
  computes \<open>address.length - SUFFIX_LEN\<close>, which is negative on a short address.
\<close>

definition clampIndex :: "string \<Rightarrow> int \<Rightarrow> nat" where
  "clampIndex s i = nat (min (max i 0) (int (length s)))"

definition substring :: "string \<Rightarrow> int \<Rightarrow> int \<Rightarrow> string" where
  "substring s indexStart indexEnd =
     (let finalStart = clampIndex s indexStart;
          finalEnd = clampIndex s indexEnd;
          lo = min finalStart finalEnd;
          hi = max finalStart finalEnd
      in take (hi - lo) (drop lo s))"

text \<open>\<open>s.substring(start)\<close>: the end index defaults to the length of the string.\<close>

definition substringFrom :: "string \<Rightarrow> int \<Rightarrow> string" where
  "substringFrom s indexStart = substring s indexStart (int (length s))"

text \<open>
  \<open>s.replace(/\/$/, '')\<close>: the pattern is a slash followed by the end of the input; the
  scan tries every position from the left and removes the first (hence only) match.
\<close>

fun replaceTrailingSlash :: "string \<Rightarrow> string" where
  "replaceTrailingSlash [] = []"
| "replaceTrailingSlash [c] = (if c = CHR ''/'' then [] else [c])"
| "replaceTrailingSlash (c # d # cs) = c # replaceTrailingSlash (d # cs)"


section \<open>Address segmentation\<close>

definition PREFIX_LEN :: int where
  "PREFIX_LEN = 6"

definition SUFFIX_LEN :: int where
  "SUFFIX_LEN = 5"

definition addressStart :: "string \<Rightarrow> string" where
  "addressStart addr = substring addr 0 PREFIX_LEN"

definition addressMiddle :: "string \<Rightarrow> string" where
  "addressMiddle addr = substring addr PREFIX_LEN (int (length addr) - SUFFIX_LEN)"

definition addressEnd :: "string \<Rightarrow> string" where
  "addressEnd addr = substringFrom addr (int (length addr) - SUFFIX_LEN)"


section \<open>The scannable-code image\<close>

text \<open>
  The image is produced by an external encoder. The component creates an encoder with a
  type number and an error-correction level, adds one data item and calls the encoder's
  \<open>make\<close> (here \<open>make_qr\<close>). The encoder is modelled by the state these calls build up
  and by the check \<open>make\<close> performs before it lays out the image: every data item is
  written in byte mode as a 4-bit mode indicator, a length field and 8 bits per
  character, and \<open>make\<close> throws when the bits written exceed the data capacity of the
  chosen type number and level. The exception is not caught by the component, so it ends
  the render.
\<close>

record qrcode =
  typeNumber :: nat
  errorCorrectionLevel :: string
  dataList :: "string list"
  made :: bool

datatype qr_error =
    BadRsBlock
  | CodeLengthOverflow nat nat

definition QR_CODE_TYPE_NUMBER :: nat where
  "QR_CODE_TYPE_NUMBER = 4"

definition QR_CODE_ERROR_CORRECTION_LEVEL :: string where
  "QR_CODE_ERROR_CORRECTION_LEVEL = ''M''"

text \<open>
  The number of data codewords (bytes) for a type number and level. Only the rows of type
  number 4, the one the component asks for, are written out; the encoder throws on a
  combination it has no row for.
\<close>

definition RS_BLOCK_DATA_COUNT :: "((nat \<times> string) \<times> nat) list" where
  "RS_BLOCK_DATA_COUNT =
     [((4, ''L''), 80), ((4, ''M''), 64), ((4, ''Q''), 48), ((4, ''H''), 36)]"

text \<open>The width of the length field of a byte-mode item.\<close>

definition lengthInBits :: "nat \<Rightarrow> nat" where
  "lengthInBits tn = (if tn < 10 then 8 else 16)"

definition bufferLengthInBits :: "qrcode \<Rightarrow> nat" where
  "bufferLengthInBits q =
     sum_list (map (\<lambda>d. 4 + lengthInBits (typeNumber q) + 8 * length d) (dataList q))"

definition qrCode :: "nat \<Rightarrow> string \<Rightarrow> qrcode" where
  "qrCode tn ecl = \<lparr>typeNumber = tn, errorCorrectionLevel = ecl, dataList = [], made = False\<rparr>"

definition addData :: "qrcode \<Rightarrow> string \<Rightarrow> qrcode" where
  "addData q d = q\<lparr>dataList := dataList q @ [d]\<rparr>"

definition make_qr :: "qrcode \<Rightarrow> qr_error + qrcode" where
  "make_qr q =
     (case map_of RS_BLOCK_DATA_COUNT (typeNumber q, errorCorrectionLevel q) of
        None \<Rightarrow> Inl BadRsBlock
      | Some totalDataCount \<Rightarrow>
          if bufferLengthInBits q > totalDataCount * 8 then
            Inl (CodeLengthOverflow (bufferLengthInBits q) (totalDataCount * 8))
          else Inr (q\<lparr>made := True\<rparr>))"

definition qrImage :: "string \<Rightarrow> qr_error + qrcode" where
  "qrImage addr =
     make_qr (addData (qrCode QR_CODE_TYPE_NUMBER QR_CODE_ERROR_CORRECTION_LEVEL) addr)"


section \<open>Network registry and chain identifiers\<close>

text \<open>
  A network record as the registry holds it. The component reads \<open>name\<close> and
  \<open>blockExplorerUrls\<close>; the list of explorer URLs is absent on some records (the
  non-EVM records of the storybook state have none), hence the option.
\<close>

record NetworkConfiguration =
  chainId :: string
  name :: string
  nativeCurrency :: string
  blockExplorerUrls :: "string list option"
  isEvm :: bool

type_synonym registry = "string \<rightharpoonup> NetworkConfiguration"

text \<open>The two warnings the component writes to the console, with the identifier they show.\<close>

datatype diagnostic =
    InvalidHexChainId string
  | UnknownChainIdFormat string

text \<open>
  The block that computes \<open>caipChainId\<close>. The conversion of a hex identifier is done by
  \<open>toEvmCaipChainId\<close>, a function of an external package: it is a parameter here, and
  \<open>None\<close> stands for the exception it throws, which the \<open>try\<close>/\<open>catch\<close> around the call
  turns into a warning and the empty string.
\<close>

definition caipChainId :: "(string \<Rightarrow> string option) \<Rightarrow> string \<Rightarrow> string \<times> diagnostic list" where
  "caipChainId toEvm cid =
     (if startsWith cid ''eip155:'' then (cid, [])
      else if startsWith cid ''0x'' then
        (case toEvm cid of
           Some c \<Rightarrow> (c, [])
         | None \<Rightarrow> ([], [InvalidHexChainId cid]))
      else ([], [UnknownChainIdFormat cid]))"

text \<open>
  The lookup of \<open>multichainNetwork\<close>: nothing is done on an empty identifier, and the
  registry is read only when \<open>caipChainId\<close> is not the empty string. The result is the
  record found (if any) together with the warnings written.
\<close>

definition multichainNetwork ::
  "registry \<Rightarrow> (string \<Rightarrow> string option) \<Rightarrow> string \<Rightarrow> NetworkConfiguration option \<times> diagnostic list" where
  "multichainNetwork reg toEvm cid =
     (if cid \<noteq> [] then
        (case caipChainId toEvm cid of
           (c, warnings) \<Rightarrow> (if c \<noteq> [] then reg c else None, warnings))
      else (None, []))"

definition networkName :: "NetworkConfiguration option \<Rightarrow> string" where
  "networkName network =
     (case network of
        None \<Rightarrow> ''Unknown Network''
      | Some n \<Rightarrow> if name n \<noteq> [] then name n else ''Unknown Network'')"


section \<open>Explorer button\<close>

text \<open>
  The localisation resolver is external. The two messages the component asks for are taken
  from the storybook state: \<open>viewOnExplorer\<close> is \<open>View on Explorer\<close> and
  \<open>viewAddressOnExplorer\<close> is \<open>View address on $1\<close>.
\<close>

datatype message =
    viewOnExplorer
  | viewAddressOnExplorer string

fun t :: "message \<Rightarrow> string" where
  "t viewOnExplorer = ''View on Explorer''"
| "t (viewAddressOnExplorer brand) = ''View address on '' @ brand"

text \<open>
  The guard \<open>!multichainNetwork?.blockExplorerUrls?.length\<close> followed by
  \<open>blockExplorerUrls[0]\<close>: the first URL, when there is a record with a non-empty list.
\<close>

definition firstExplorerUrl :: "NetworkConfiguration option \<Rightarrow> string option" where
  "firstExplorerUrl network =
     (case network of
        None \<Rightarrow> None
      | Some n \<Rightarrow>
          (case blockExplorerUrls n of
             None \<Rightarrow> None
           | Some [] \<Rightarrow> None
           | Some (explorerUrl # _) \<Rightarrow> Some explorerUrl))"

definition getExplorerButtonText :: "NetworkConfiguration option \<Rightarrow> string" where
  "getExplorerButtonText network =
     (case firstExplorerUrl network of
        None \<Rightarrow> t viewOnExplorer
      | Some explorerUrl \<Rightarrow>
          if str_includes explorerUrl ''etherscan'' then t (viewAddressOnExplorer ''Etherscan'')
          else if str_includes explorerUrl ''bscscan'' then t (viewAddressOnExplorer ''BSCScan'')
          else if str_includes explorerUrl ''polygonscan'' then
            t (viewAddressOnExplorer ''Polygonscan'')
          else if str_includes explorerUrl ''arbiscan'' then t (viewAddressOnExplorer ''Arbiscan'')
          else if str_includes explorerUrl ''solscan'' then t (viewAddressOnExplorer ''Solscan'')
          else t viewOnExplorer)"

text \<open>
  The click handler. Its only effect is the call of \<open>openBlockExplorer\<close>; the result is the
  link handed to that call, \<open>None\<close> when the handler returns without calling it.
\<close>

definition handleExplorerNavigation :: "NetworkConfiguration option \<Rightarrow> string \<Rightarrow> string option" where
  "handleExplorerNavigation network addr =
     (case firstExplorerUrl network of
        None \<Rightarrow> None
      | Some explorerUrl \<Rightarrow> Some (replaceTrailingSlash explorerUrl @ ''/address/'' @ addr))"

text \<open>
  The classification as the specification words it: an ordered table of substring and
  brand, searched for the first entry whose substring occurs in the URL.
\<close>

definition explorerBrands :: "(string \<times> string) list" where
  "explorerBrands =
     [(''etherscan'', ''Etherscan''),
      (''bscscan'', ''BSCScan''),
      (''polygonscan'', ''Polygonscan''),
      (''arbiscan'', ''Arbiscan''),
      (''solscan'', ''Solscan'')]"

definition brandedLabel :: "string \<Rightarrow> string" where
  "brandedLabel url =
     (case find (\<lambda>entry. str_includes url (fst entry)) explorerBrands of
        None \<Rightarrow> ''View on Explorer''
      | Some entry \<Rightarrow> ''View address on '' @ snd entry)"


section \<open>The account-scope variant\<close>

text \<open>
  The other variant of the component does not look at the chain identifier: it asks the
  selector \<open>getMultichainNetwork\<close> for the network of the account found for the address
  (or, failing that, of the account passed in).
\<close>

record InternalAccount =
  address :: string
  scopes :: "string list"
  metadata_name :: string

text \<open>\<open>accountInfo || account\<close>.\<close>

definition targetAccount :: "InternalAccount option \<Rightarrow> InternalAccount option \<Rightarrow> InternalAccount option" where
  "targetAccount accountInfo account =
     (case accountInfo of Some a \<Rightarrow> Some a | None \<Rightarrow> account)"

text \<open>
  Modelled from the spec: the selector \<open>getInternalAccountByAddress\<close> is not part of the
  sources at hand. An account record has an address; the account of an address is the
  first known account with that address.
\<close>

definition getInternalAccountByAddress :: "InternalAccount list \<Rightarrow> string \<Rightarrow> InternalAccount option" where
  "getInternalAccountByAddress accounts addr = find (\<lambda>a. address a = addr) accounts"

text \<open>
  Modelled from the spec: the selector \<open>getMultichainNetwork\<close> is not part of the sources
  at hand. The specification describes it as resolving the network implied by the account's
  first matching scope: the first scope of the account, in the account's order, that has a
  record in the registry, and that record.
\<close>

definition firstMatchingScope :: "registry \<Rightarrow> InternalAccount \<Rightarrow> string option" where
  "firstMatchingScope reg a = find (\<lambda>s. reg s \<noteq> None) (scopes a)"

definition getMultichainNetwork :: "registry \<Rightarrow> InternalAccount \<Rightarrow> NetworkConfiguration option" where
  "getMultichainNetwork reg a =
     (case firstMatchingScope reg a of None \<Rightarrow> None | Some s \<Rightarrow> reg s)"

text \<open>
  The lookup of the account-scope variant: the selector is applied to the account found
  for the address or else to the account passed in. It is not given the chain identifier.
  The specification describes the selector for an account record only; with no account at
  all this model resolves no network.
\<close>

definition multichainNetworkByAccount ::
  "registry \<Rightarrow> InternalAccount list \<Rightarrow> string \<Rightarrow> InternalAccount option \<Rightarrow> NetworkConfiguration option" where
  "multichainNetworkByAccount reg accounts addr account =
     (case targetAccount (getInternalAccountByAddress accounts addr) account of
        None \<Rightarrow> None
      | Some a \<Rightarrow> getMultichainNetwork reg a)"


section \<open>Conversion of hex identifiers\<close>

text \<open>
  Modelled from the spec: \<open>toEvmCaipChainId\<close> belongs to an external package. The
  specification says that \<open>0x\<close> followed by hex digits is converted to the EVM-namespace
  form for that numeric chain id, and that malformed hex or an out-of-range number is a
  conversion failure. The range is that of the integers the host language represents
  exactly, up to \<open>2^53 - 1\<close>. The theorems below take the conversion function as a
  parameter; this one is used where a concrete input is evaluated.
\<close>

definition hexDigits :: "(char \<times> nat) list" where
  "hexDigits =
     [(CHR ''0'', 0), (CHR ''1'', 1), (CHR ''2'', 2), (CHR ''3'', 3), (CHR ''4'', 4),
      (CHR ''5'', 5), (CHR ''6'', 6), (CHR ''7'', 7), (CHR ''8'', 8), (CHR ''9'', 9),
      (CHR ''a'', 10), (CHR ''b'', 11), (CHR ''c'', 12), (CHR ''d'', 13), (CHR ''e'', 14),
      (CHR ''f'', 15), (CHR ''A'', 10), (CHR ''B'', 11), (CHR ''C'', 12), (CHR ''D'', 13),
      (CHR ''E'', 14), (CHR ''F'', 15)]"

fun hexValue :: "nat \<Rightarrow> string \<Rightarrow> nat option" where
  "hexValue acc [] = Some acc"
| "hexValue acc (c # cs) =
     (case map_of hexDigits c of
        None \<Rightarrow> None
      | Some d \<Rightarrow> hexValue (16 * acc + d) cs)"

definition MAX_SAFE_INTEGER :: nat where
  "MAX_SAFE_INTEGER = 9007199254740991"

definition hexToNumber :: "string \<Rightarrow> nat option" where
  "hexToNumber s =
     (if startsWith s ''0x'' \<and> drop 2 s \<noteq> [] then
        (case hexValue 0 (drop 2 s) of
           None \<Rightarrow> None
         | Some n \<Rightarrow> if n \<le> MAX_SAFE_INTEGER then Some n else None)
      else None)"

definition digitChar :: "nat \<Rightarrow> char" where
  "digitChar d = ''0123456789'' ! d"

function toDecimal :: "nat \<Rightarrow> string" where
  "toDecimal n = (if n < 10 then [digitChar n] else toDecimal (n div 10) @ [digitChar (n mod 10)])"
  by pat_completeness auto
termination
  by (relation "measure id") auto

declare toDecimal.simps [simp del]

definition toEvmCaipChainId :: "string \<Rightarrow> string option" where
  "toEvmCaipChainId s =
     (case hexToNumber s of
        None \<Rightarrow> None
      | Some n \<Rightarrow> Some (''eip155:'' @ toDecimal n))"


section \<open>The two identifier patterns of the specification\<close>

text \<open>
  Modelled from the spec: the canonical namespace-qualified pattern. The specification
  gives its shape by example (\<open>eip155:1\<close>, \<open>solana:\<close> followed by a genesis hash): a
  namespace, a colon and a reference. The character classes and lengths are those of the
  chain-identifier grammar these examples follow: a namespace of 3 to 8 characters among
  lower-case letters, digits and the hyphen, and a reference of 1 to 32 characters among
  letters, digits, the hyphen and the underscore.
\<close>

definition isNamespaceChar :: "char \<Rightarrow> bool" where
  "isNamespaceChar c = (c \<in> set ''-abcdefghijklmnopqrstuvwxyz0123456789'')"

definition isReferenceChar :: "char \<Rightarrow> bool" where
  "isReferenceChar c =
     (c \<in> set ''-_abcdefghijklmnopqrstuvwxyzABCDEFGHIJKLMNOPQRSTUVWXYZ0123456789'')"

definition isCaipChainId :: "string \<Rightarrow> bool" where
  "isCaipChainId s =
     (let namespace = takeWhile (\<lambda>c. c \<noteq> CHR '':'') s;
          rest = dropWhile (\<lambda>c. c \<noteq> CHR '':'') s
      in 3 \<le> length namespace \<and> length namespace \<le> 8 \<and> list_all isNamespaceChar namespace
         \<and> rest \<noteq> []
         \<and> 1 \<le> length (tl rest) \<and> length (tl rest) \<le> 32
         \<and> list_all isReferenceChar (tl rest))"

text \<open>
  Modelled from the spec: the legacy-hex pattern, \<open>0x\<close> followed by hex digits (at least
  one).
\<close>

definition isHexDigit :: "char \<Rightarrow> bool" where
  "isHexDigit c = (map_of hexDigits c \<noteq> None)"

definition isLegacyHex :: "string \<Rightarrow> bool" where
  "isLegacyHex s = (startsWith s ''0x'' \<and> drop 2 s \<noteq> [] \<and> list_all isHexDigit (drop 2 s))"

text \<open>
  Modelled from the spec: the normaliser as the specification words it. A canonical
  identifier is returned unchanged, a legacy-hex identifier is converted (a failing
  conversion gives Unknown), any other shape gives Unknown; \<open>None\<close> is Unknown.
\<close>

definition normalize :: "(string \<Rightarrow> string option) \<Rightarrow> string \<Rightarrow> string option" where
  "normalize toEvm raw =
     (if isCaipChainId raw then Some raw
      else if isLegacyHex raw then toEvm raw
      else None)"


section \<open>Storybook data\<close>

text \<open>
  The networks and accounts of the component's stories. The registry the component reads
  is keyed by canonical identifier: the two EVM networks of the stories appear under the
  canonical identifier of their chain, the two non-EVM networks under the key the stories
  give them.
\<close>

definition polygonMainnet :: NetworkConfiguration where
  "polygonMainnet =
     \<lparr>chainId = ''eip155:137'', name = ''Polygon Mainnet'', nativeCurrency = ''MATIC'',
      blockExplorerUrls = Some [''https://polygonscan.com''], isEvm = True\<rparr>"

definition arbitrumOne :: NetworkConfiguration where
  "arbitrumOne =
     \<lparr>chainId = ''eip155:42161'', name = ''Arbitrum One'', nativeCurrency = ''ETH'',
      blockExplorerUrls = Some [''https://arbiscan.io''], isEvm = True\<rparr>"

definition solanaMainnet :: NetworkConfiguration where
  "solanaMainnet =
     \<lparr>chainId = ''solana:5eykt4UsFv8P8NJdTREpY1vzqKqZKvdp'', name = ''Solana Mainnet'',
      nativeCurrency = ''solana:5eykt4UsFv8P8NJdTREpY1vzqKqZKvdp/slip44:501'',
      blockExplorerUrls = None, isEvm = False\<rparr>"

definition bitcoinMainnet :: NetworkConfiguration where
  "bitcoinMainnet =
     \<lparr>chainId = ''bip122:000000000019d6689c085ae165831e93'', name = ''Bitcoin Mainnet'',
      nativeCurrency = ''bip122:000000000019d6689c085ae165831e93/slip44:0'',
      blockExplorerUrls = None, isEvm = False\<rparr>"

definition storyRegistry :: registry where
  "storyRegistry =
     map_of
       [(''eip155:137'', polygonMainnet),
        (''eip155:42161'', arbitrumOne),
        (''solana:5eykt4UsFv8P8NJdTREpY1vzqKqZKvdp'', solanaMainnet),
        (''bip122:000000000019d6689c085ae165831e93'', bitcoinMainnet)]"

definition polygonAccount :: InternalAccount where
  "polygonAccount =
     \<lparr>address = ''0xabcdef1234567890abcdef1234567890abcdef12'', scopes = [''eip155:137''],
      metadata_name = ''Polygon Account''\<rparr>"

definition arbitrumAccount :: InternalAccount where
  "arbitrumAccount =
     \<lparr>address = ''0x2468135790abcdef1234567890abcdef12345678'', scopes = [''eip155:42161''],
      metadata_name = ''Arbitrum Account''\<rparr>"

text \<open>An account whose only scope is the Solana network of the stories.\<close>

definition solanaAccount :: InternalAccount where
  "solanaAccount =
     \<lparr>address = ''8A4AptCThfbuknsbteHgGKXczfJpfjuVA9SLTSGaaLGC'',
      scopes = [''solana:5eykt4UsFv8P8NJdTREpY1vzqKqZKvdp''],
      metadata_name = ''Solana Account''\<rparr>"

definition storyAccounts :: "InternalAccount list" where
  "storyAccounts = [polygonAccount, arbitrumAccount, solanaAccount]"


section \<open>Segmentation: proofs\<close>

lemma clampIndex_zero: "clampIndex s 0 = 0"
  unfolding clampIndex_def by simp

lemma clampIndex_length: "clampIndex s (int (length s)) = length s"
  unfolding clampIndex_def by simp

lemma clampIndex_prefix: "clampIndex s 6 = min 6 (length s)"
  unfolding clampIndex_def by linarith

lemma clampIndex_suffix: "clampIndex s (int (length s) - 5) = length s - 5"
  unfolding clampIndex_def by linarith

lemma take_min_length: "take (min n (length xs)) xs = take n xs"
  by (cases "n \<le> length xs") (simp_all add: min_def)

lemma addressStart_take: "addressStart addr = take 6 addr"
  by (simp add: addressStart_def substring_def PREFIX_LEN_def Let_def
      clampIndex_zero clampIndex_prefix take_min_length)

lemma addressEnd_drop: "addressEnd addr = drop (length addr - 5) addr"
  by (simp add: addressEnd_def substringFrom_def substring_def SUFFIX_LEN_def Let_def
      clampIndex_suffix clampIndex_length)

lemma addressMiddle_long:
  assumes "11 \<le> length addr"
  shows "addressMiddle addr = take (length addr - 11) (drop 6 addr)"
proof -
  have c: "min (min 6 (length addr)) (length addr - 5) = 6"
    "max (min 6 (length addr)) (length addr - 5) = length addr - 5"
    using assms by arith+
  have d: "length addr - 5 - 6 = length addr - 11"
    by simp
  show ?thesis
    by (simp add: addressMiddle_def substring_def PREFIX_LEN_def SUFFIX_LEN_def Let_def
        clampIndex_prefix clampIndex_suffix c d)
qed

lemma addressMiddle_short:
  assumes "length addr < 11"
  shows "addressMiddle addr =
           take (min 6 (length addr) - (length addr - 5)) (drop (length addr - 5) addr)"
proof -
  have c: "min (min 6 (length addr)) (length addr - 5) = length addr - 5"
    "max (min 6 (length addr)) (length addr - 5) = min 6 (length addr)"
    using assms by arith+
  show ?thesis
    by (simp add: addressMiddle_def substring_def PREFIX_LEN_def SUFFIX_LEN_def Let_def
        clampIndex_prefix clampIndex_suffix c)
qed

lemma split_in_three:
  assumes "11 \<le> length (addr :: string)"
  shows "take 6 addr @ take (length addr - 11) (drop 6 addr) @ drop (length addr - 5) addr
           = addr"
proof -
  have "length addr - 5 = (length addr - 11) + 6"
    using assms by simp
  then have "drop (length addr - 5) addr = drop (length addr - 11) (drop 6 addr)"
    by (simp only: drop_drop)
  then have "take (length addr - 11) (drop 6 addr) @ drop (length addr - 5) addr
               = drop 6 addr"
    by (simp only: append_take_drop_id)
  then show ?thesis
    by (simp only: append_take_drop_id)
qed

lemma overlap_longer:
  assumes "length (addr :: string) < 11" and "addr \<noteq> []"
  shows "length addr < length (take 6 addr) + length (drop (length addr - 5) addr)"
proof -
  from assms have "0 < length addr" "length addr < 11"
    by simp_all
  then show ?thesis
    unfolding length_take length_drop by arith
qed

text \<open>
  Claim C6. An address of at least 11 characters is cut into a prefix of 6 characters, a
  middle and a suffix of 5 characters whose concatenation is the address itself; at
  exactly 11 characters the middle is empty and prefix and suffix alone make up the
  address.
\<close>

theorem segments_reassemble:
  assumes "11 \<le> length addr"
  shows "addressStart addr @ addressMiddle addr @ addressEnd addr = addr
         \<and> length (addressStart addr) = 6
         \<and> length (addressEnd addr) = 5
         \<and> length (addressMiddle addr) = length addr - 11
         \<and> (length addr = 11 \<longrightarrow>
              addressMiddle addr = [] \<and> addressStart addr @ addressEnd addr = addr)"
proof -
  have whole: "addressStart addr @ addressMiddle addr @ addressEnd addr = addr"
    using assms split_in_three [OF assms]
    by (simp add: addressStart_take addressMiddle_long addressEnd_drop)
  have l1: "length (addressStart addr) = 6"
    using assms by (simp add: addressStart_take)
  have l2: "length (addressEnd addr) = 5"
    using assms by (simp add: addressEnd_drop)
  have l3: "length (addressMiddle addr) = length addr - 11"
    using assms by (simp add: addressMiddle_long)
  have eleven: "addressMiddle addr = [] \<and> addressStart addr @ addressEnd addr = addr"
    if "length addr = 11"
  proof -
    from l3 that have "addressMiddle addr = []"
      by simp
    with whole show ?thesis
      by simp
  qed
  from whole l1 l2 l3 eleven show ?thesis
    by blast
qed

theorem segments_reassemble_witness:
  "11 \<le> length ''0x123456789''
   \<and> addressStart ''0x123456789'' = ''0x1234''
   \<and> addressMiddle ''0x123456789'' = []
   \<and> addressEnd ''0x123456789'' = ''56789''
   \<and> addressStart ''0x123456789'' @ addressMiddle ''0x123456789'' @ addressEnd ''0x123456789''
       = ''0x123456789''"
  using segments_reassemble [of "''0x123456789''"]
  by (simp add: addressStart_take addressEnd_drop)

text \<open>
  Claim C7. On an address shorter than 11 characters the segmentation raises nothing: the
  three substring calls clamp and swap their indices, and the result is fully determined.
  The prefix is the first 6 characters (the whole address when it is shorter), the suffix
  is the last 5 characters (the whole address when it is shorter), and the middle is the
  stretch from the start of the suffix to the end of the prefix, which is the part the two
  have in common. The segments therefore overlap, and on a non-empty address their
  concatenation is longer than the address.
\<close>

theorem short_address_segments:
  assumes "length addr < 11"
  shows "addressStart addr = take 6 addr
         \<and> addressEnd addr = drop (length addr - 5) addr
         \<and> addressMiddle addr =
             take (min 6 (length addr) - (length addr - 5)) (drop (length addr - 5) addr)
         \<and> (addr \<noteq> [] \<longrightarrow>
              length addr < length (addressStart addr @ addressMiddle addr @ addressEnd addr))"
proof -
  have longer: "length addr < length (addressStart addr @ addressMiddle addr @ addressEnd addr)"
    if "addr \<noteq> []"
    using overlap_longer [OF assms that]
    unfolding length_append addressStart_take addressEnd_drop by arith
  with assms show ?thesis
    by (simp add: addressStart_take addressMiddle_short addressEnd_drop)
qed

theorem short_address_segments_witness:
  "length ''0123456789'' < 11
   \<and> addressStart ''0123456789'' = ''012345''
   \<and> addressMiddle ''0123456789'' = ''5''
   \<and> addressEnd ''0123456789'' = ''56789''
   \<and> addressStart ''abc'' = ''abc''
   \<and> addressMiddle ''abc'' = ''abc''
   \<and> addressEnd ''abc'' = ''abc''"
  using short_address_segments [of "''0123456789''"] short_address_segments [of "''abc''"]
  by simp

section \<open>Strings: proofs\<close>

lemmas conv_defs = toEvmCaipChainId_def hexToNumber_def startsWith_def hexDigits_def
  MAX_SAFE_INTEGER_def toDecimal.simps digitChar_def

lemma startsWith_iff: "startsWith s p \<longleftrightarrow> (\<exists>post. s = p @ post)"
proof
  assume "startsWith s p"
  then have "take (length p) s = p"
    by (simp only: startsWith_def)
  then have "s = p @ drop (length p) s"
    using append_take_drop_id [of "length p" s] by simp
  then show "\<exists>post. s = p @ post" ..
next
  assume "\<exists>post. s = p @ post"
  then show "startsWith s p"
    by (auto simp: startsWith_def)
qed

lemma str_includes_iff: "str_includes s p \<longleftrightarrow> (\<exists>pre post. s = pre @ p @ post)"
proof (induction s)
  case Nil
  show ?case by simp
next
  case (Cons c cs)
  show ?case
  proof
    assume "str_includes (c # cs) p"
    then consider "startsWith (c # cs) p" | "str_includes cs p"
      by auto
    then show "\<exists>pre post. c # cs = pre @ p @ post"
    proof cases
      case 1
      then obtain post where "c # cs = p @ post"
        by (auto simp only: startsWith_iff)
      then have "c # cs = [] @ p @ post"
        by simp
      then show ?thesis by blast
    next
      case 2
      with Cons.IH obtain pre post where "cs = pre @ p @ post"
        by blast
      then have "c # cs = (c # pre) @ p @ post"
        by simp
      then show ?thesis by blast
    qed
  next
    assume "\<exists>pre post. c # cs = pre @ p @ post"
    then obtain pre post where eq: "c # cs = pre @ p @ post"
      by blast
    show "str_includes (c # cs) p"
    proof (cases pre)
      case Nil
      with eq have "\<exists>post. c # cs = p @ post"
        by simp
      then have "startsWith (c # cs) p"
        by (simp only: startsWith_iff)
      then show ?thesis by simp
    next
      case (Cons d pre')
      with eq have "cs = pre' @ p @ post"
        by simp
      with Cons.IH have "str_includes cs p"
        by blast
      then show ?thesis by simp
    qed
  qed
qed

lemma replaceTrailingSlash_eq:
  "replaceTrailingSlash s = (if s \<noteq> [] \<and> last s = CHR ''/'' then butlast s else s)"
  by (induction s rule: replaceTrailingSlash.induct) auto


section \<open>Explorer button: proofs\<close>

lemma firstExplorerUrl_Cons:
  "blockExplorerUrls n = Some (u # us) \<Longrightarrow> firstExplorerUrl (Some n) = Some u"
  by (simp add: firstExplorerUrl_def)

lemma firstExplorerUrl_None_iff:
  "firstExplorerUrl network = None \<longleftrightarrow>
     (network = None
      \<or> (\<exists>n. network = Some n \<and> (blockExplorerUrls n = None \<or> blockExplorerUrls n = Some [])))"
  by (auto simp: firstExplorerUrl_def split: option.splits list.splits)

lemma getExplorerButtonText_brandedLabel:
  "firstExplorerUrl network = Some u \<Longrightarrow> getExplorerButtonText network = brandedLabel u"
  by (simp add: getExplorerButtonText_def brandedLabel_def explorerBrands_def)

text \<open>
  Claim C3. When the resolved network has at least one explorer URL, the button label is
  decided by the first URL alone: the first of \<open>etherscan\<close>, \<open>bscscan\<close>, \<open>polygonscan\<close>,
  \<open>arbiscan\<close>, \<open>solscan\<close> (in this order) that occurs somewhere in it gives
  \<open>View address on\<close> followed by the brand, and a URL in which none occurs gives the
  generic \<open>View on Explorer\<close>. The chain of tests in the component agrees with the search
  of the ordered brand table for its first matching entry.
\<close>

theorem explorer_label_first_match:
  assumes "blockExplorerUrls n = Some (u # us)"
  shows "getExplorerButtonText (Some n) = brandedLabel u
         \<and> getExplorerButtonText (Some n) =
             (if \<exists>pre post. u = pre @ ''etherscan'' @ post then ''View address on Etherscan''
              else if \<exists>pre post. u = pre @ ''bscscan'' @ post then ''View address on BSCScan''
              else if \<exists>pre post. u = pre @ ''polygonscan'' @ post then
                ''View address on Polygonscan''
              else if \<exists>pre post. u = pre @ ''arbiscan'' @ post then ''View address on Arbiscan''
              else if \<exists>pre post. u = pre @ ''solscan'' @ post then ''View address on Solscan''
              else ''View on Explorer'')"
proof -
  from assms have first: "firstExplorerUrl (Some n) = Some u"
    by (rule firstExplorerUrl_Cons)
  then have "getExplorerButtonText (Some n) = brandedLabel u"
    by (rule getExplorerButtonText_brandedLabel)
  moreover from first have "getExplorerButtonText (Some n) =
             (if str_includes u ''etherscan'' then ''View address on Etherscan''
              else if str_includes u ''bscscan'' then ''View address on BSCScan''
              else if str_includes u ''polygonscan'' then ''View address on Polygonscan''
              else if str_includes u ''arbiscan'' then ''View address on Arbiscan''
              else if str_includes u ''solscan'' then ''View address on Solscan''
              else ''View on Explorer'')"
    by (simp add: getExplorerButtonText_def)
  ultimately show ?thesis
    by (simp only: str_includes_iff) 
qed

theorem explorer_label_first_match_witness:
  "blockExplorerUrls polygonMainnet = Some [''https://polygonscan.com'']
   \<and> getExplorerButtonText (Some polygonMainnet) = ''View address on Polygonscan''
   \<and> blockExplorerUrls arbitrumOne = Some [''https://arbiscan.io'']
   \<and> getExplorerButtonText (Some arbitrumOne) = ''View address on Arbiscan''
   \<and> getExplorerButtonText (Some (polygonMainnet\<lparr>blockExplorerUrls := Some [''https://blockscout.com/'']\<rparr>))
       = ''View on Explorer''"
  using explorer_label_first_match [of polygonMainnet "''https://polygonscan.com''" "[]", THEN conjunct1]
    explorer_label_first_match [of arbitrumOne "''https://arbiscan.io''" "[]", THEN conjunct1]
    explorer_label_first_match [of "polygonMainnet\<lparr>blockExplorerUrls := Some [''https://blockscout.com/'']\<rparr>"
      "''https://blockscout.com/''" "[]", THEN conjunct1]
  by (simp add: polygonMainnet_def arbitrumOne_def brandedLabel_def explorerBrands_def
      startsWith_def)

text \<open>
  Claim C8. When no network was resolved, or the resolved network has no list of explorer
  URLs or an empty one, the button shows the generic \<open>View on Explorer\<close> and a click
  opens nothing: the handler returns before building any link.
\<close>

theorem no_explorer_url_generic_label:
  assumes "network = None
           \<or> (\<exists>n. network = Some n \<and> (blockExplorerUrls n = None \<or> blockExplorerUrls n = Some []))"
  shows "getExplorerButtonText network = ''View on Explorer''
         \<and> handleExplorerNavigation network addr = None"
proof -
  from assms have "firstExplorerUrl network = None"
    by (simp only: firstExplorerUrl_None_iff)
  then show ?thesis
    by (simp add: getExplorerButtonText_def handleExplorerNavigation_def)
qed

theorem no_explorer_url_generic_label_witness:
  "getExplorerButtonText None = ''View on Explorer''
   \<and> handleExplorerNavigation None ''0xabcdef1234567890abcdef1234567890abcdef12'' = None
   \<and> blockExplorerUrls solanaMainnet = None
   \<and> getExplorerButtonText (Some solanaMainnet) = ''View on Explorer''
   \<and> handleExplorerNavigation (Some solanaMainnet) ''0xabcdef1234567890abcdef1234567890abcdef12'' = None
   \<and> getExplorerButtonText (Some (polygonMainnet\<lparr>blockExplorerUrls := Some []\<rparr>)) = ''View on Explorer''"
  using no_explorer_url_generic_label [of None "''0xabcdef1234567890abcdef1234567890abcdef12''"]
    no_explorer_url_generic_label [of "Some solanaMainnet" "''0xabcdef1234567890abcdef1234567890abcdef12''"]
    no_explorer_url_generic_label [of "Some (polygonMainnet\<lparr>blockExplorerUrls := Some []\<rparr>)" "''0xabcdef1234567890abcdef1234567890abcdef12''"]
  by (simp add: solanaMainnet_def polygonMainnet_def)

text \<open>
  Claim C9. When the resolved network has at least one explorer URL, a click opens the
  first URL, less one trailing slash if it ends in one, followed by \<open>/address/\<close> and the
  address exactly as given.
\<close>

theorem explorer_link_from_first_url:
  assumes "blockExplorerUrls n = Some (u # us)"
  shows "handleExplorerNavigation (Some n) addr =
           Some ((if u \<noteq> [] \<and> last u = CHR ''/'' then butlast u else u) @ ''/address/'' @ addr)"
proof -
  from assms have "firstExplorerUrl (Some n) = Some u"
    by (rule firstExplorerUrl_Cons)
  then have "handleExplorerNavigation (Some n) addr
               = Some (replaceTrailingSlash u @ ''/address/'' @ addr)"
    by (simp add: handleExplorerNavigation_def)
  then show ?thesis
    by (simp only: replaceTrailingSlash_eq)
qed

theorem explorer_link_from_first_url_witness:
  "blockExplorerUrls polygonMainnet = Some [''https://polygonscan.com'']
   \<and> handleExplorerNavigation (Some polygonMainnet) ''0xabcdef1234567890abcdef1234567890abcdef12''
       = Some ''https://polygonscan.com/address/0xabcdef1234567890abcdef1234567890abcdef12''
   \<and> handleExplorerNavigation
         (Some (arbitrumOne\<lparr>blockExplorerUrls := Some [''https://arbiscan.io//'', ''https://other.example'']\<rparr>))
         ''a b?c''
       = Some ''https://arbiscan.io//address/a b?c''"
  using explorer_link_from_first_url [of polygonMainnet "''https://polygonscan.com''" "[]"
      "''0xabcdef1234567890abcdef1234567890abcdef12''"]
    explorer_link_from_first_url [of "arbitrumOne\<lparr>blockExplorerUrls := Some [''https://arbiscan.io//'', ''https://other.example'']\<rparr>"
      "''https://arbiscan.io//''" "[''https://other.example'']" "''a b?c''"]
  by (simp add: polygonMainnet_def arbitrumOne_def)


section \<open>Chain identifiers and lookup: proofs\<close>

lemma startsWith_nonempty: "startsWith cid (c # p) \<Longrightarrow> cid \<noteq> []"
  by (auto simp: startsWith_def)

lemma caipChainId_empty: "caipChainId toEvm [] = ([], [UnknownChainIdFormat []])"
  by (simp add: caipChainId_def startsWith_def)

lemma multichainNetwork_fst:
  "fst (multichainNetwork reg toEvm cid) =
     (if fst (caipChainId toEvm cid) \<noteq> [] then reg (fst (caipChainId toEvm cid)) else None)"
  by (cases "cid = []") (simp_all add: multichainNetwork_def caipChainId_empty split: prod.splits)

lemma multichainNetwork_snd:
  "cid \<noteq> [] \<Longrightarrow> snd (multichainNetwork reg toEvm cid) = snd (caipChainId toEvm cid)"
  by (simp add: multichainNetwork_def split: prod.splits)

lemma caipChainId_eip155:
  assumes "startsWith cid ''eip155:''"
  shows "caipChainId toEvm cid = (cid, [])"
    and "multichainNetwork reg toEvm cid = (reg cid, [])"
proof -
  show a: "caipChainId toEvm cid = (cid, [])"
    using assms by (simp add: caipChainId_def)
  from assms have "cid \<noteq> []"
    by (rule startsWith_nonempty)
  with a show "multichainNetwork reg toEvm cid = (reg cid, [])"
    by (simp add: multichainNetwork_def)
qed

lemma caipChainId_hex:
  assumes "\<not> startsWith cid ''eip155:''" and "startsWith cid ''0x''" and "toEvm cid = Some c"
  shows "caipChainId toEvm cid = (c, [])"
  using assms by (simp add: caipChainId_def)

text \<open>
  Claim C1, at the Solana identifier of the stories. The identifier is namespace-qualified
  and is a key of the registry, yet the component accepts only the prefix \<open>eip155:\<close> as
  canonical: the Solana identifier falls through to the last branch, a warning about an
  unknown format is written, the registry is never read and the network name shown is
  \<open>Unknown Network\<close>.
\<close>

theorem solana_chainId_not_resolved:
  "storyRegistry ''solana:5eykt4UsFv8P8NJdTREpY1vzqKqZKvdp'' = Some solanaMainnet
   \<and> caipChainId toEvmCaipChainId ''solana:5eykt4UsFv8P8NJdTREpY1vzqKqZKvdp''
       = ([], [UnknownChainIdFormat ''solana:5eykt4UsFv8P8NJdTREpY1vzqKqZKvdp''])
   \<and> multichainNetwork storyRegistry toEvmCaipChainId ''solana:5eykt4UsFv8P8NJdTREpY1vzqKqZKvdp''
       = (None, [UnknownChainIdFormat ''solana:5eykt4UsFv8P8NJdTREpY1vzqKqZKvdp''])
   \<and> networkName
         (fst (multichainNetwork storyRegistry toEvmCaipChainId
                 ''solana:5eykt4UsFv8P8NJdTREpY1vzqKqZKvdp''))
       = ''Unknown Network''"
  by (simp add: storyRegistry_def multichainNetwork_def caipChainId_def startsWith_def
      networkName_def)

text \<open>
  Claim C4. Whenever normalisation yields no canonical identifier (the empty string), or
  the registry has no record under the canonical identifier, the lookup yields no record
  and the network name shown is the placeholder \<open>Unknown Network\<close>.
\<close>

theorem unknown_network_placeholder:
  assumes "fst (caipChainId toEvm cid) = [] \<or> reg (fst (caipChainId toEvm cid)) = None"
  shows "fst (multichainNetwork reg toEvm cid) = None
         \<and> networkName (fst (multichainNetwork reg toEvm cid)) = ''Unknown Network''"
proof -
  from assms have "fst (multichainNetwork reg toEvm cid) = None"
    by (auto simp: multichainNetwork_fst)
  then show ?thesis
    by (simp add: networkName_def)
qed

theorem unknown_network_placeholder_witness:
  "fst (caipChainId toEvmCaipChainId ''not-a-chain'') = []
   \<and> networkName (fst (multichainNetwork storyRegistry toEvmCaipChainId ''not-a-chain''))
       = ''Unknown Network''
   \<and> fst (caipChainId toEvmCaipChainId ''0x1'') = ''eip155:1''
   \<and> storyRegistry ''eip155:1'' = None
   \<and> networkName (fst (multichainNetwork storyRegistry toEvmCaipChainId ''0x1''))
       = ''Unknown Network''"
proof -
  have h1: "fst (caipChainId toEvmCaipChainId ''not-a-chain'') = []"
    by (simp add: caipChainId_def startsWith_def)
  have h2: "fst (caipChainId toEvmCaipChainId ''0x1'') = ''eip155:1''"
    by (simp add: caipChainId_def conv_defs)
  have h3: "storyRegistry ''eip155:1'' = None"
    by (simp add: storyRegistry_def)
  from h1 have p1: "fst (caipChainId toEvmCaipChainId ''not-a-chain'') = []
      \<or> storyRegistry (fst (caipChainId toEvmCaipChainId ''not-a-chain'')) = None"
    by (rule disjI1)
  from h2 h3 have p2: "fst (caipChainId toEvmCaipChainId ''0x1'') = []
      \<or> storyRegistry (fst (caipChainId toEvmCaipChainId ''0x1'')) = None"
    by simp
  from h1 h2 h3
    unknown_network_placeholder [of toEvmCaipChainId "''not-a-chain''" storyRegistry, OF p1]
    unknown_network_placeholder [of toEvmCaipChainId "''0x1''" storyRegistry, OF p2]
  show ?thesis
    by blast
qed



lemma isLegacyHex_prefix:
  assumes "isLegacyHex s"
  shows "startsWith s ''0x''" and "\<not> startsWith s ''eip155:''" and "s \<noteq> []"
    and "\<not> isCaipChainId s"
proof -
  from assms show hex: "startsWith s ''0x''"
    by (simp add: isLegacyHex_def)
  then obtain r where s: "s = CHR ''0'' # CHR ''x'' # r"
    by (auto simp: startsWith_iff)
  then show "\<not> startsWith s ''eip155:''" and "s \<noteq> []"
    by (simp_all add: startsWith_def)
  from assms s have digits: "list_all isHexDigit r"
    by (simp add: isLegacyHex_def)
  have no_colon: "CHR '':'' \<notin> set r"
  proof
    assume "CHR '':'' \<in> set r"
    with digits have "isHexDigit CHR '':''"
      by (simp add: list_all_iff)
    then show False
      by (simp add: isHexDigit_def hexDigits_def)
  qed
  then have "dropWhile (\<lambda>c. c \<noteq> CHR '':'') s = []"
    using s by (auto simp: dropWhile_eq_Nil_conv)
  then show "\<not> isCaipChainId s"
    by (simp add: isCaipChainId_def Let_def)
qed




section \<open>The two resolution paths\<close>

lemma find_Some_holds: "find P xs = Some x \<Longrightarrow> P x"
  by (auto simp: find_Some_iff)

text \<open>
  Claim C2 as stated fails. The chain-identifier path follows the identifier it is given,
  while the account path is not given the identifier at all. For the address of the
  Polygon account the chain identifiers of Polygon and of Arbitrum resolve to two
  different records, so the account path, which yields Polygon Mainnet, cannot agree with
  both. For the address of the Solana account the two paths disagree even on the
  account's own chain identifier: the chain-identifier path does not accept an identifier
  outside the EVM namespace and resolves nothing.
\<close>

theorem paths_disagree_counterexample:
  "getInternalAccountByAddress storyAccounts ''0xabcdef1234567890abcdef1234567890abcdef12''
     = Some polygonAccount
   \<and> multichainNetworkByAccount storyRegistry storyAccounts
        ''0xabcdef1234567890abcdef1234567890abcdef12'' None = Some polygonMainnet
   \<and> fst (multichainNetwork storyRegistry toEvmCaipChainId ''0xa4b1'') = Some arbitrumOne
   \<and> fst (multichainNetwork storyRegistry toEvmCaipChainId ''0xa4b1'')
       \<noteq> multichainNetworkByAccount storyRegistry storyAccounts
            ''0xabcdef1234567890abcdef1234567890abcdef12'' None
   \<and> fst (multichainNetwork storyRegistry toEvmCaipChainId ''0x89'')
       \<noteq> fst (multichainNetwork storyRegistry toEvmCaipChainId ''0xa4b1'')
   \<and> getInternalAccountByAddress storyAccounts ''8A4AptCThfbuknsbteHgGKXczfJpfjuVA9SLTSGaaLGC''
       = Some solanaAccount
   \<and> multichainNetworkByAccount storyRegistry storyAccounts
        ''8A4AptCThfbuknsbteHgGKXczfJpfjuVA9SLTSGaaLGC'' None = Some solanaMainnet
   \<and> fst (multichainNetwork storyRegistry toEvmCaipChainId
             ''solana:5eykt4UsFv8P8NJdTREpY1vzqKqZKvdp'') = None"
proof -
  have a: "getInternalAccountByAddress storyAccounts ''0xabcdef1234567890abcdef1234567890abcdef12''
     = Some polygonAccount"
    by (simp add: getInternalAccountByAddress_def storyAccounts_def polygonAccount_def)
  have b: "getMultichainNetwork storyRegistry polygonAccount = Some polygonMainnet"
    by (simp add: getMultichainNetwork_def firstMatchingScope_def storyRegistry_def
        polygonAccount_def)
  from a b have ab: "multichainNetworkByAccount storyRegistry storyAccounts
        ''0xabcdef1234567890abcdef1234567890abcdef12'' None = Some polygonMainnet"
    by (simp add: multichainNetworkByAccount_def targetAccount_def)
  have c: "fst (multichainNetwork storyRegistry toEvmCaipChainId ''0xa4b1'') = Some arbitrumOne"
    by (simp add: multichainNetwork_def caipChainId_def storyRegistry_def conv_defs)
  have c': "fst (multichainNetwork storyRegistry toEvmCaipChainId ''0x89'') = Some polygonMainnet"
    by (simp add: multichainNetwork_def caipChainId_def storyRegistry_def conv_defs)
  have d: "arbitrumOne \<noteq> polygonMainnet"
    by (simp add: arbitrumOne_def polygonMainnet_def)
  have e: "getInternalAccountByAddress storyAccounts ''8A4AptCThfbuknsbteHgGKXczfJpfjuVA9SLTSGaaLGC''
       = Some solanaAccount"
    by (simp add: getInternalAccountByAddress_def storyAccounts_def polygonAccount_def
        arbitrumAccount_def solanaAccount_def)
  have f: "getMultichainNetwork storyRegistry solanaAccount = Some solanaMainnet"
    by (simp add: getMultichainNetwork_def firstMatchingScope_def storyRegistry_def
        solanaAccount_def)
  from e f have ef: "multichainNetworkByAccount storyRegistry storyAccounts
        ''8A4AptCThfbuknsbteHgGKXczfJpfjuVA9SLTSGaaLGC'' None = Some solanaMainnet"
    by (simp add: multichainNetworkByAccount_def targetAccount_def)
  have g: "fst (multichainNetwork storyRegistry toEvmCaipChainId
             ''solana:5eykt4UsFv8P8NJdTREpY1vzqKqZKvdp'') = None"
    by (simp add: multichainNetwork_def caipChainId_def startsWith_def)
  from a ab c c' d e ef g show ?thesis
    by simp
qed

text \<open>
  Claim C2, amended. For an address that belongs to a known account whose first scope
  with a record in the registry lies in the EVM namespace, the two paths resolve to the
  same network record, the record of that scope, whenever the chain identifier denotes
  that scope: it is the scope itself in canonical form, or a legacy-hex identifier that
  converts to it.
\<close>

theorem paths_agree_on_evm_scope:
  assumes known: "getInternalAccountByAddress accounts addr = Some a"
    and scope: "firstMatchingScope reg a = Some s"
    and evm: "startsWith s ''eip155:''"
    and denotes: "normalize toEvm cid = Some s"
  shows "fst (multichainNetwork reg toEvm cid)
           = multichainNetworkByAccount reg accounts addr account
         \<and> multichainNetworkByAccount reg accounts addr account = reg s
         \<and> reg s \<noteq> None"
proof -
  from known scope have by_account: "multichainNetworkByAccount reg accounts addr account = reg s"
    by (simp add: multichainNetworkByAccount_def targetAccount_def getMultichainNetwork_def)
  from scope have found: "reg s \<noteq> None"
    unfolding firstMatchingScope_def by (rule find_Some_holds)
  from evm have s_nonempty: "s \<noteq> []"
    by (rule startsWith_nonempty)
  have by_chain: "fst (multichainNetwork reg toEvm cid) = reg s"
  proof (cases "isCaipChainId cid")
    case True
    with denotes have "cid = s"
      by (simp add: normalize_def)
    with evm show ?thesis
      by (simp add: caipChainId_eip155)
  next
    case False
    with denotes have hex: "isLegacyHex cid" and conv: "toEvm cid = Some s"
      by (auto simp: normalize_def split: if_splits)
    from hex have "\<not> startsWith cid ''eip155:''" and "startsWith cid ''0x''"
      by (auto dest: isLegacyHex_prefix)
    with conv have "caipChainId toEvm cid = (s, [])"
      by (simp add: caipChainId_hex)
    with s_nonempty show ?thesis
      by (simp add: multichainNetwork_fst)
  qed
  from by_chain by_account found show ?thesis
    by simp
qed

theorem paths_agree_on_evm_scope_witness:
  "getInternalAccountByAddress storyAccounts ''0xabcdef1234567890abcdef1234567890abcdef12''
     = Some polygonAccount
   \<and> firstMatchingScope storyRegistry polygonAccount = Some ''eip155:137''
   \<and> startsWith ''eip155:137'' ''eip155:''
   \<and> normalize toEvmCaipChainId ''0x89'' = Some ''eip155:137''
   \<and> normalize toEvmCaipChainId ''eip155:137'' = Some ''eip155:137''
   \<and> fst (multichainNetwork storyRegistry toEvmCaipChainId ''0x89'')
       = multichainNetworkByAccount storyRegistry storyAccounts
           ''0xabcdef1234567890abcdef1234567890abcdef12'' None
   \<and> fst (multichainNetwork storyRegistry toEvmCaipChainId ''eip155:137'')
       = multichainNetworkByAccount storyRegistry storyAccounts
           ''0xabcdef1234567890abcdef1234567890abcdef12'' None
   \<and> multichainNetworkByAccount storyRegistry storyAccounts
           ''0xabcdef1234567890abcdef1234567890abcdef12'' None = Some polygonMainnet"
proof -
  have a: "getInternalAccountByAddress storyAccounts ''0xabcdef1234567890abcdef1234567890abcdef12''
     = Some polygonAccount"
    by (simp add: getInternalAccountByAddress_def storyAccounts_def polygonAccount_def)
  have b: "firstMatchingScope storyRegistry polygonAccount = Some ''eip155:137''"
    by (simp add: firstMatchingScope_def storyRegistry_def polygonAccount_def)
  have c: "startsWith ''eip155:137'' ''eip155:''"
    by (simp add: startsWith_def)
  have d: "normalize toEvmCaipChainId ''0x89'' = Some ''eip155:137''"
    by (simp add: normalize_def isCaipChainId_def isLegacyHex_def isHexDigit_def conv_defs)
  have e: "normalize toEvmCaipChainId ''eip155:137'' = Some ''eip155:137''"
    by (simp add: normalize_def isCaipChainId_def isNamespaceChar_def isReferenceChar_def)
  have r: "storyRegistry ''eip155:137'' = Some polygonMainnet"
    by (simp add: storyRegistry_def)
  note w1 = paths_agree_on_evm_scope [OF a b c d, of None]
  note w2 = paths_agree_on_evm_scope [OF a b c e, of None]
  from a b c d e r w1 w2 show ?thesis
    by simp
qed


section \<open>The scannable-code image: proofs\<close>

lemma qrImage_cases:
  "qrImage addr =
     (if 62 < length addr then Inl (CodeLengthOverflow (12 + 8 * length addr) 512)
      else Inr \<lparr>typeNumber = 4, errorCorrectionLevel = ''M'', dataList = [addr], made = True\<rparr>)"
  by (simp add: qrImage_def make_qr_def addData_def qrCode_def RS_BLOCK_DATA_COUNT_def
      bufferLengthInBits_def lengthInBits_def QR_CODE_TYPE_NUMBER_def
      QR_CODE_ERROR_CORRECTION_LEVEL_def)

text \<open>
  Claim C10 as stated fails on a long address: the component asks for type number 4 at
  level M, which holds 64 data bytes, that is 62 characters after the mode indicator and
  the length field. On an address of 63 characters the encoder throws and no image is
  made.
\<close>

theorem qrImage_overflow_counterexample:
  "length ''0123456789abcdef0123456789abcdef0123456789abcdef0123456789abcde'' = 63
   \<and> qrImage ''0123456789abcdef0123456789abcdef0123456789abcdef0123456789abcde''
       = Inl (CodeLengthOverflow 516 512)"
  by (simp add: qrImage_def make_qr_def addData_def qrCode_def RS_BLOCK_DATA_COUNT_def
      bufferLengthInBits_def lengthInBits_def QR_CODE_TYPE_NUMBER_def
      QR_CODE_ERROR_CORRECTION_LEVEL_def)

text \<open>
  Claim C10, amended. For every address of at most 62 characters the image is made and
  the only data item encoded in it is the address exactly as the component received it:
  nothing is prepended, appended or rewritten. On a longer address the encoder reports an
  overflow of its capacity instead.
\<close>

theorem qrImage_payload_is_address:
  "(length addr \<le> 62 \<longrightarrow>
      qrImage addr =
        Inr \<lparr>typeNumber = 4, errorCorrectionLevel = ''M'', dataList = [addr], made = True\<rparr>)
   \<and> (62 < length addr \<longrightarrow>
      qrImage addr = Inl (CodeLengthOverflow (12 + 8 * length addr) 512))"
  by (simp add: qrImage_cases)

theorem qrImage_payload_is_address_witness:
  "length ''0xabcdef1234567890abcdef1234567890abcdef12'' \<le> 62
   \<and> qrImage ''0xabcdef1234567890abcdef1234567890abcdef12'' =
       Inr \<lparr>typeNumber = 4, errorCorrectionLevel = ''M'',
            dataList = [''0xabcdef1234567890abcdef1234567890abcdef12''], made = True\<rparr>
   \<and> 62 < length ''bcrt1qrp33g0q5c5txsp9arysrx4k6zdkfs4nce4xj0gdcccefvpysxf3qzf4jry''
   \<and> qrImage ''bcrt1qrp33g0q5c5txsp9arysrx4k6zdkfs4nce4xj0gdcccefvpysxf3qzf4jry'' =
       Inl (CodeLengthOverflow 524 512)"
  using qrImage_payload_is_address [of "''0xabcdef1234567890abcdef1234567890abcdef12''"]
    qrImage_payload_is_address [of "''bcrt1qrp33g0q5c5txsp9arysrx4k6zdkfs4nce4xj0gdcccefvpysxf3qzf4jry''"]
  by simp

end
